theory Spec2Isabelle
  imports Main "HOL-Library.Word"
begin

unbundle bit_operations_syntax

section \<open>Data model of \<open>google/cloud/runtimeconfig/variable.py\<close>\<close>

text \<open>
  Python values that can sit in the property mapping or in a JSON resource: \<open>None\<close>,
  a \<open>str\<close>, a \<open>bytes\<close> object, or a number. A \<open>str\<close> is a \<open>string\<close>; a
  \<open>bytes\<close> object is a list of 8-bit words.
\<close>

type_synonym byte = "8 word"

datatype pyval = PNone | PStr string | PBytes "byte list" | PInt int

text \<open>
  The exceptions that the module raises or lets through. \<open>Error\<close> is
  \<open>google.cloud.runtimeconfig.exceptions.Error\<close>; \<open>Conflict\<close> and \<open>NotFound\<close> are
  the two conditions of \<open>google.cloud.exceptions\<close> that the module catches;
  \<open>RemoteError\<close> stands for every other exception of the connection;
  \<open>BinasciiInvalidLength\<close> and \<open>BinasciiIncorrectPadding\<close> are the two messages of
  \<open>binascii.Error\<close>.
\<close>

datatype error =
    Error string
  | ValueError string
  | TypeError string
  | AttributeError string
  | BinasciiInvalidLength nat
  | BinasciiIncorrectPadding
  | UnicodeDecodeError string
  | Conflict
  | NotFound
  | RemoteError string

type_synonym resource = "string \<rightharpoonup> pyval"

datatype http_method = GET | POST | PUT

record request =
  req_method :: http_method
  req_path :: string
  req_data :: "resource option"
  req_query_params :: "(string \<rightharpoonup> string) option"

text \<open>
  A client is what \<open>client._connection.api_request\<close> does: it answers a request with
  a decoded JSON body or raises.
\<close>

type_synonym client = "request \<Rightarrow> error + resource"

definition api_request :: "client \<Rightarrow> http_method \<Rightarrow> string \<Rightarrow> resource option
    \<Rightarrow> (string \<rightharpoonup> string) option \<Rightarrow> error + resource" where
  "api_request c m p d q =
     c \<lparr>req_method = m, req_path = p, req_data = d, req_query_params = q\<rparr>"

text \<open>
  The owning \<open>Config\<close> is an external collaborator: the module reads its
  \<open>full_name\<close>, its \<open>path\<close> and its \<open>client\<close>, which are fields here.
\<close>

record config =
  config_full_name :: string
  config_path :: string
  config_client :: client

text \<open>
  \<open>Variable\<close>: \<open>name\<close> is a \<open>str\<close> or \<open>None\<close>, \<open>properties\<close> is the dict
  \<open>_properties\<close>.
\<close>

record variable =
  name :: "string option"
  config :: config
  properties :: resource

definition Variable :: "string option \<Rightarrow> config \<Rightarrow> variable" where
  "Variable n c = \<lparr>name = n, config = c, properties = Map.empty\<rparr>"

text \<open>\<open>d.get(k)\<close>: the stored value, \<open>None\<close> when the key is absent.\<close>

definition dict_get :: "resource \<Rightarrow> string \<Rightarrow> pyval" where
  "dict_get d k = (case d k of None \<Rightarrow> PNone | Some x \<Rightarrow> x)"

text \<open>\<open>k in d\<close>.\<close>

definition has_key :: "resource \<Rightarrow> string \<Rightarrow> bool" where
  "has_key d k = (d k \<noteq> None)"

section \<open>The standard library's base64 codec\<close>

text \<open>
  \<open>base64.b64encode\<close> and \<open>base64.b64decode\<close> belong to Python's standard
  library. They are modelled after CPython's \<open>binascii\<close>: the encoder by groups of
  three bytes (RFC 4648, with \<open>=\<close> padding and no newline), the decoder by the loop of
  \<open>binascii.a2b_base64\<close> in its default, non-strict mode, which skips every byte
  outside the alphabet and fails on a wrong number of data characters.
\<close>

definition table_b2a_base64 :: string where
  "table_b2a_base64 =
     ''ABCDEFGHIJKLMNOPQRSTUVWXYZabcdefghijklmnopqrstuvwxyz0123456789+/''"

definition BASE64_PAD :: byte where
  "BASE64_PAD = 0x3D"

text \<open>\<open>table_b2a_base64[i & 0x3f]\<close>.\<close>

definition b2a_char :: "byte \<Rightarrow> byte" where
  "b2a_char i = of_char (table_b2a_base64 ! unat (i AND 0x3f))"

fun b2a_base64 :: "byte list \<Rightarrow> byte list" where
  "b2a_base64 [] = []"
| "b2a_base64 [a] =
     [b2a_char (drop_bit 2 a), b2a_char (push_bit 4 (a AND 3)), BASE64_PAD, BASE64_PAD]"
| "b2a_base64 [a, b] =
     [b2a_char (drop_bit 2 a), b2a_char (push_bit 4 (a AND 3) OR drop_bit 4 b),
      b2a_char (push_bit 2 (b AND 15)), BASE64_PAD]"
| "b2a_base64 (a # b # c # rest) =
     [b2a_char (drop_bit 2 a), b2a_char (push_bit 4 (a AND 3) OR drop_bit 4 b),
      b2a_char (push_bit 2 (b AND 15) OR drop_bit 6 c), b2a_char (c AND 63)]
     @ b2a_base64 rest"

fun index_of :: "'a \<Rightarrow> 'a list \<Rightarrow> nat option" where
  "index_of x [] = None"
| "index_of x (y # ys) = (if x = y then Some 0 else map_option Suc (index_of x ys))"

text \<open>
  \<open>table_a2b_base64[c]\<close>: the 6-bit value of an alphabet character, \<open>None\<close> for
  every other byte (the C table holds a value from 64 there).
\<close>

definition table_a2b_base64 :: "byte \<Rightarrow> byte option" where
  "table_a2b_base64 c = map_option of_nat (index_of (char_of (unat c)) table_b2a_base64)"

text \<open>
  The decoding loop: \<open>quad_pos\<close> counts the data characters of the current group of
  four, \<open>leftchar\<close> holds the bits not yet written, \<open>pads\<close> counts the \<open>=\<close> seen
  since the last data character. A pad that completes a group of two or three data
  characters ends the input. At the end of the input an unfinished group is an error.
\<close>

fun a2b_loop :: "byte list \<Rightarrow> nat \<Rightarrow> byte \<Rightarrow> nat \<Rightarrow> byte list \<Rightarrow> error + byte list" where
  "a2b_loop [] quad_pos leftchar pads out =
     (if quad_pos \<noteq> 0 then
        (if quad_pos = 1 then Inl (BinasciiInvalidLength (length out div 3 * 4 + 1))
         else Inl BinasciiIncorrectPadding)
      else Inr out)"
| "a2b_loop (c # cs) quad_pos leftchar pads out =
     (if c = BASE64_PAD then
        (if quad_pos \<ge> 2 \<and> quad_pos + (pads + 1) \<ge> 4 then Inr out
         else a2b_loop cs quad_pos leftchar (if quad_pos \<ge> 2 then pads + 1 else pads) out)
      else
        (case table_a2b_base64 c of
           None \<Rightarrow> a2b_loop cs quad_pos leftchar pads out
         | Some this_ch \<Rightarrow>
             if quad_pos = 0 then a2b_loop cs 1 this_ch 0 out
             else if quad_pos = 1 then
               a2b_loop cs 2 (this_ch AND 0x0f) 0
                 (out @ [push_bit 2 leftchar OR drop_bit 4 this_ch])
             else if quad_pos = 2 then
               a2b_loop cs 3 (this_ch AND 0x03) 0
                 (out @ [push_bit 4 leftchar OR drop_bit 2 this_ch])
             else a2b_loop cs 0 0 0 (out @ [push_bit 6 leftchar OR this_ch])))"

definition a2b_base64 :: "byte list \<Rightarrow> error + byte list" where
  "a2b_base64 s = a2b_loop s 0 0 0 []"

text \<open>A \<open>bytes\<close> literal: \<open>b"abc"\<close> is \<open>bytes_of ''abc''\<close>.\<close>

definition bytes_of :: "string \<Rightarrow> byte list" where
  "bytes_of s = map of_char s"

definition chars_of :: "byte list \<Rightarrow> string" where
  "chars_of bs = map (\<lambda>b. char_of (unat b)) bs"

text \<open>A name between single quotes, as \<open>%r\<close> and the messages of CPython print it.\<close>

definition quoted :: "string \<Rightarrow> string" where
  "quoted n = CHR 0x27 # n @ [CHR 0x27]"

definition py_type_name :: "pyval \<Rightarrow> string" where
  "py_type_name x =
     (case x of PNone \<Rightarrow> ''NoneType'' | PStr _ \<Rightarrow> ''str'' | PBytes _ \<Rightarrow> ''bytes''
      | PInt _ \<Rightarrow> ''int'')"

text \<open>
  \<open>base64.b64encode(s)\<close>: only a bytes-like object is accepted; the result is a
  \<open>bytes\<close> object.
\<close>

definition b64encode :: "pyval \<Rightarrow> error + byte list" where
  "b64encode s =
     (case s of
        PBytes bs \<Rightarrow> Inr (b2a_base64 bs)
      | _ \<Rightarrow> Inl (TypeError (''a bytes-like object is required, not ''
               @ quoted (py_type_name s))))"

text \<open>
  \<open>base64.b64decode(s)\<close>: a \<open>str\<close> is first encoded as ASCII, which fails on a
  character from 128; a \<open>bytes\<close> object is taken as it is.
\<close>

definition b64decode :: "pyval \<Rightarrow> error + byte list" where
  "b64decode s =
     (case s of
        PStr t \<Rightarrow>
          if list_all (\<lambda>c. (of_char c :: nat) < 128) t then a2b_base64 (bytes_of t)
          else Inl (ValueError ''string argument should contain only ASCII characters'')
      | PBytes bs \<Rightarrow> a2b_base64 bs
      | _ \<Rightarrow> Inl (TypeError (''argument should be a bytes-like object or ASCII string, not ''
               @ quoted (py_type_name s))))"

text \<open>
  \<open>bytes.decode("utf-8")\<close> on the bytes that reach it here. A byte below 128 is the
  character of that code, and the encoder produces no other byte (lemma
  \<open>b2a_base64_ascii\<close> below). A byte from 128 would start a multi-byte sequence, whose
  code point need not fit a \<open>char\<close>; such input is answered with a
  \<open>UnicodeDecodeError\<close> and is never reached from \<open>b64encode\<close>.
\<close>

definition decode_utf8 :: "byte list \<Rightarrow> error + string" where
  "decode_utf8 bs =
     (if list_all (\<lambda>b. b < 128) bs then Inr (chars_of bs)
      else Inl (UnicodeDecodeError ''invalid start byte''))"

section \<open>The helper \<open>variable_name_from_full_name\<close>\<close>

text \<open>\<open>s.split(sep, maxsplit)\<close> for a one-character separator.\<close>

fun split_max :: "char \<Rightarrow> nat \<Rightarrow> string \<Rightarrow> string list" where
  "split_max sep 0 s = [s]"
| "split_max sep (Suc n) s =
     (if sep \<in> set s
      then takeWhile (\<lambda>c. c \<noteq> sep) s # split_max sep n (tl (dropWhile (\<lambda>c. c \<noteq> sep) s))
      else [s])"

text \<open>
  Modelled from the spec: \<open>variable_name_from_full_name\<close> of
  \<open>google.cloud.runtimeconfig._helpers\<close> is imported by the module and is not among
  the sources. The spec gives the fully-qualified name of a resource as
  \<open>projects/P/configs/C/variables/V\<close> and says that the local name is derived from
  it: the result is \<open>V\<close>, everything after the fifth \<open>/\<close>. A string of another form
  is refused with a \<open>ValueError\<close>, and a value that is not a \<open>str\<close> (such as the
  \<open>None\<close> that \<open>resource.get("name")\<close> gives for a resource without a name) has no
  \<open>split\<close>.
\<close>

definition variable_name_from_full_name :: "pyval \<Rightarrow> error + string" where
  "variable_name_from_full_name full =
     (case full of
        PStr s \<Rightarrow>
          (case split_max CHR ''/'' 5 s of
             [projects, _, configs, _, variables, result] \<Rightarrow>
               if projects \<noteq> ''projects'' \<or> configs \<noteq> ''configs'' \<or> variables \<noteq> ''variables''
               then Inl (ValueError ''Unexpected format of resource'')
               else Inr result
           | _ \<Rightarrow> Inl (ValueError ''Unexpected format of resource''))
      | _ \<Rightarrow> Inl (AttributeError (quoted (py_type_name full) @ '' object has no attribute ''
               @ quoted ''split'')))"

section \<open>Derived names\<close>

definition full_name :: "variable \<Rightarrow> error + string" where
  "full_name v =
     (case name v of
        None \<Rightarrow> Inl (ValueError ''Missing variable name.'')
      | Some n \<Rightarrow>
          if n = [] then Inl (ValueError ''Missing variable name.'')
          else Inr (config_full_name (config v) @ ''/variables/'' @ n))"

definition path :: "variable \<Rightarrow> error + string" where
  "path v = (case full_name v of Inl e \<Rightarrow> Inl e | Inr fn \<Rightarrow> Inr (''/'' @ fn))"

definition client_of :: "variable \<Rightarrow> client" where
  "client_of v = config_client (config v)"

definition require_client :: "variable \<Rightarrow> client option \<Rightarrow> client" where
  "require_client v c = (case c of None \<Rightarrow> client_of v | Some c' \<Rightarrow> c')"

section \<open>Property accessors\<close>

definition text_getter :: "variable \<Rightarrow> pyval" where
  "text_getter v = dict_get (properties v) ''text''"

definition text_setter :: "variable \<Rightarrow> pyval \<Rightarrow> (error + unit) \<times> variable" where
  "text_setter v val =
     (if has_key (properties v) ''value''
      then (Inl (Error ''Value and text are mutually exclusive.''), v)
      else (Inr (), v\<lparr>properties := (properties v)(''text'' \<mapsto> val)\<rparr>))"

definition value_setter :: "variable \<Rightarrow> pyval \<Rightarrow> (error + unit) \<times> variable" where
  "value_setter v val =
     (if has_key (properties v) ''text''
      then (Inl (Error ''Value and text are mutually exclusive.''), v)
      else (Inr (), v\<lparr>properties := (properties v)(''value'' \<mapsto> val)\<rparr>))"

definition value_getter :: "variable \<Rightarrow> error + pyval" where
  "value_getter v =
     (let val = dict_get (properties v) ''value'' in
      if val \<noteq> PNone
      then (case b64decode val of Inl e \<Rightarrow> Inl e | Inr bs \<Rightarrow> Inr (PBytes bs))
      else Inr val)"

section \<open>Absorbing a resource and building the payload\<close>

text \<open>
  \<open>_set_properties\<close>: the mapping is cleared first; the name is parsed after that,
  so an exception of the helper leaves the mapping empty and the name as it was.
\<close>

definition set_properties :: "variable \<Rightarrow> resource \<Rightarrow> (error + unit) \<times> variable" where
  "set_properties v resource =
     (let v1 = v\<lparr>properties := Map.empty\<rparr>;
          cleaned = resource
      in if has_key cleaned ''name''
         then (case variable_name_from_full_name (dict_get cleaned ''name'') of
                 Inl e \<Rightarrow> (Inl e, v1)
               | Inr n \<Rightarrow>
                   (Inr (), v1\<lparr>name := Some n,
                                properties := properties v1 ++ cleaned(''name'' := None)\<rparr>))
         else (Inr (), v1\<lparr>properties := properties v1 ++ cleaned\<rparr>))"

definition from_api_repr :: "resource \<Rightarrow> config \<Rightarrow> error + variable" where
  "from_api_repr resource cfg =
     (case variable_name_from_full_name (dict_get resource ''name'') of
        Inl e \<Rightarrow> Inl e
      | Inr n \<Rightarrow>
          (case set_properties (Variable (Some n) cfg) resource of
             (Inl e, _) \<Rightarrow> Inl e
           | (Inr _, variable) \<Rightarrow> Inr variable))"

definition get_payload :: "variable \<Rightarrow> error + resource" where
  "get_payload v =
     (case full_name v of
        Inl e \<Rightarrow> Inl e
      | Inr fn \<Rightarrow>
          (let data = [''name'' \<mapsto> PStr fn] in
           if has_key (properties v) ''text''
           then Inr (data(''text'' \<mapsto> the (properties v ''text'')))
           else if has_key (properties v) ''value''
           then (case b64encode (the (properties v ''value'')) of
                   Inl e \<Rightarrow> Inl e
                 | Inr enc \<Rightarrow>
                     (case decode_utf8 enc of
                        Inl e \<Rightarrow> Inl e
                      | Inr s \<Rightarrow> Inr (data(''value'' \<mapsto> PStr s))))
           else Inl (Error ''No text or value set.'')))"

section \<open>Remote operations\<close>

text \<open>
  Each operation returns what the method returns or raises, together with the variable
  as the call leaves it.
\<close>

definition create :: "variable \<Rightarrow> client option \<Rightarrow> (error + bool) \<times> variable" where
  "create v client =
     (let c = require_client v client;
          p = config_path (config v) @ ''/variables''
      in case get_payload v of
           Inl e \<Rightarrow> (Inl e, v)
         | Inr data \<Rightarrow>
             (case api_request c POST p (Some data) None of
                Inl e \<Rightarrow> if e = Conflict then (Inr False, v) else (Inl e, v)
              | Inr resp \<Rightarrow>
                  (case set_properties v resp of
                     (Inl e, v') \<Rightarrow> (Inl e, v')
                   | (Inr _, v') \<Rightarrow> (Inr True, v'))))"

definition update :: "variable \<Rightarrow> client option \<Rightarrow> (error + bool) \<times> variable" where
  "update v client =
     (let c = require_client v client
      in case get_payload v of
           Inl e \<Rightarrow> (Inl e, v)
         | Inr data \<Rightarrow>
             (case path v of
                Inl e \<Rightarrow> (Inl e, v)
              | Inr p \<Rightarrow>
                  (case api_request c PUT p (Some data) None of
                     Inl e \<Rightarrow> if e = NotFound then (Inr False, v) else (Inl e, v)
                   | Inr resp \<Rightarrow>
                       (case set_properties v resp of
                          (Inl e, v') \<Rightarrow> (Inl e, v')
                        | (Inr _, v') \<Rightarrow> (Inr True, v')))))"

definition exists_var :: "variable \<Rightarrow> client option \<Rightarrow> (error + bool) \<times> variable" where
  "exists_var v client =
     (let c = require_client v client;
          query_params = [''fields'' \<mapsto> ''name'']
      in case path v of
           Inl e \<Rightarrow> (Inl e, v)
         | Inr p \<Rightarrow>
             (case api_request c GET p None (Some query_params) of
                Inl e \<Rightarrow> if e = NotFound then (Inr False, v) else (Inl e, v)
              | Inr _ \<Rightarrow> (Inr True, v)))"

definition reload :: "variable \<Rightarrow> client option \<Rightarrow> (error + unit) \<times> variable" where
  "reload v client =
     (let c = require_client v client
      in case path v of
           Inl e \<Rightarrow> (Inl e, v)
         | Inr p \<Rightarrow>
             (case api_request c GET p None None of
                Inl e \<Rightarrow> (Inl e, v)
              | Inr resp \<Rightarrow> set_properties v resp))"

section \<open>Sequences of operations\<close>

text \<open>
  A caller's session on one variable: each step is a setter, the absorption of a
  resource, or a remote operation with its optional client. An exception ends the call,
  not the session: the next step runs on the variable as the call left it.
\<close>

datatype operation =
    SetText pyval
  | SetValue pyval
  | SetProperties resource
  | Create "client option"
  | Update "client option"
  | Exists "client option"
  | Reload "client option"

fun step :: "variable \<Rightarrow> operation \<Rightarrow> variable" where
  "step v (SetText x) = snd (text_setter v x)"
| "step v (SetValue x) = snd (value_setter v x)"
| "step v (SetProperties r) = snd (set_properties v r)"
| "step v (Create c) = snd (create v c)"
| "step v (Update c) = snd (update v c)"
| "step v (Exists c) = snd (exists_var v c)"
| "step v (Reload c) = snd (reload v c)"

definition run :: "variable \<Rightarrow> operation list \<Rightarrow> variable" where
  "run v ops = foldl step v ops"

text \<open>The invariant of the data model: not both \<open>text\<close> and \<open>value\<close>.\<close>

definition mutually_exclusive :: "resource \<Rightarrow> bool" where
  "mutually_exclusive d = (\<not> (has_key d ''text'' \<and> has_key d ''value''))"

text \<open>
  A client is well behaved when no resource it answers with carries both fields. A step
  brings in exclusive responses when the resource it absorbs is exclusive, or when the
  client it talks to is well behaved.
\<close>

definition well_behaved :: "client \<Rightarrow> bool" where
  "well_behaved c = (\<forall>req r. c req = Inr r \<longrightarrow> mutually_exclusive r)"

fun responses_exclusive :: "variable \<Rightarrow> operation \<Rightarrow> bool" where
  "responses_exclusive v (SetProperties r) = mutually_exclusive r"
| "responses_exclusive v (Create c) = well_behaved (require_client v c)"
| "responses_exclusive v (Update c) = well_behaved (require_client v c)"
| "responses_exclusive v (Reload c) = well_behaved (require_client v c)"
| "responses_exclusive v (SetText x) = True"
| "responses_exclusive v (SetValue x) = True"
| "responses_exclusive v (Exists c) = True"

section \<open>Stubs for concrete instances\<close>

definition conflict_stub :: client where
  "conflict_stub req = Inl Conflict"

definition not_found_stub :: client where
  "not_found_stub req = Inl NotFound"

text \<open>A server that answers every request with the given resource.\<close>

definition answer_stub :: "resource \<Rightarrow> client" where
  "answer_stub r req = Inr r"

definition stub_config :: "client \<Rightarrow> config" where
  "stub_config c =
     \<lparr>config_full_name = ''projects/p/configs/c'', config_path = ''/projects/p/configs/c'',
      config_client = c\<rparr>"

section \<open>Facts about the codec\<close>

text \<open>The encoder writes characters of the alphabet and \<open>=\<close>, all of them ASCII.\<close>

lemma table_length: "length table_b2a_base64 = 64"
  by (simp add: table_b2a_base64_def)

lemma table_ascii: "list_all (\<lambda>c. (of_char c :: byte) < 128) table_b2a_base64"
  by (simp add: table_b2a_base64_def)

lemma unat_and_63: "unat ((i :: byte) AND 0x3f) < 64"
proof -
  have "i AND 0x3f \<le> 0x3f"
    by (rule word_and_le1)
  then have "unat (i AND 0x3f) \<le> 63"
    by (simp add: word_le_nat_alt)
  then show ?thesis
    by simp
qed

lemma b2a_char_ascii: "b2a_char i < 128"
proof -
  have "table_b2a_base64 ! unat (i AND 0x3f) \<in> set table_b2a_base64"
    using unat_and_63 [of i] by (simp add: table_length)
  with table_ascii show ?thesis
    by (simp add: b2a_char_def list_all_iff)
qed

lemma b2a_base64_ascii: "list_all (\<lambda>b. b < 128) (b2a_base64 bs)"
  by (induction bs rule: b2a_base64.induct) (simp_all add: b2a_char_ascii BASE64_PAD_def)

lemma decode_utf8_b2a_base64: "decode_utf8 (b2a_base64 bs) = Inr (chars_of (b2a_base64 bs))"
  by (simp add: decode_utf8_def b2a_base64_ascii)

text \<open>
  Decoding undoes encoding. The table lookups invert each other, the alphabet has no
  \<open>=\<close>, and the shifts of the decoder put the bits of each group back in place.
\<close>

lemma byte_eqI:
  assumes "bit a 0 = bit b 0" "bit a 1 = bit b 1" "bit a 2 = bit b 2" "bit a 3 = bit b 3"
    "bit a 4 = bit b 4" "bit a 5 = bit b 5" "bit a 6 = bit b 6" "bit a 7 = bit b 7"
  shows "a = (b :: byte)"
proof (rule bit_word_eqI)
  fix n
  assume "n < LENGTH(8)"
  then have "n \<in> set [0, 1, 2, 3, 4, 5, 6, 7]"
    by simp arith
  with assms show "bit a n = bit b n"
    by auto
qed

lemma index_of_nth: "distinct xs \<Longrightarrow> k < length xs \<Longrightarrow> index_of (xs ! k) xs = Some k"
proof (induction xs arbitrary: k)
  case Nil
  then show ?case by simp
next
  case (Cons x xs)
  then show ?case by (cases k) auto
qed

lemma table_distinct: "distinct table_b2a_base64"
  by (simp add: table_b2a_base64_def)

lemma unat_of_char: "unat (of_char c :: byte) = of_char c"
proof -
  have "unat (of_nat (of_char c) :: byte) = of_char c mod 2 ^ 8"
    by (simp only: unat_of_nat) simp
  then show ?thesis
    by (simp add: of_nat_of_char)
qed

lemma table_a2b_b2a: "table_a2b_base64 (b2a_char i) = Some (i AND 0x3f)"
  using unat_and_63 [of i]
  by (simp add: table_a2b_base64_def b2a_char_def unat_of_char index_of_nth table_distinct
      table_length)

lemma pad_not_in_table: "CHR ''='' \<notin> set table_b2a_base64"
  by (simp add: table_b2a_base64_def)

lemma b2a_char_not_pad: "b2a_char i \<noteq> BASE64_PAD"
proof
  assume "b2a_char i = BASE64_PAD"
  then have "unat (b2a_char i) = unat (of_char CHR ''='' :: byte)"
    by (simp add: BASE64_PAD_def)
  then have "table_b2a_base64 ! unat (i AND 0x3f) = CHR ''=''"
    by (simp only: b2a_char_def unat_of_char of_char_eq_iff)
  moreover have "table_b2a_base64 ! unat (i AND 0x3f) \<in> set table_b2a_base64"
    using unat_and_63 [of i] by (simp add: table_length)
  ultimately show False
    using pad_not_in_table by simp
qed

lemma a2b_loop_b2a_base64:
  "a2b_loop (b2a_base64 bs) 0 0 0 out = Inr (out @ bs)"
proof (induction bs arbitrary: out rule: b2a_base64.induct)
  case 1
  show ?case by simp
next
  case (2 a)
  have "push_bit 2 (drop_bit 2 a AND 63) OR drop_bit 4 (push_bit 4 (a AND 3) AND 63) = a"
    by (rule byte_eqI) (simp_all add: bit_simps)
  then show ?case
    by (simp add: table_a2b_b2a b2a_char_not_pad)
next
  case (3 a b)
  show ?case
    apply (simp add: table_a2b_b2a b2a_char_not_pad)
    apply (intro conjI; rule byte_eqI; simp add: bit_simps)
    done
next
  case (4 a b c rest)
  show ?case
    apply (simp add: table_a2b_b2a b2a_char_not_pad "4.IH")
    apply (intro conjI; rule byte_eqI; simp add: bit_simps)
    done
qed

lemma a2b_b2a_base64: "a2b_base64 (b2a_base64 bs) = Inr bs"
  by (simp add: a2b_base64_def a2b_loop_b2a_base64)

lemma bytes_of_chars_of: "bytes_of (chars_of bs) = bs"
proof -
  have "(of_char (char_of (unat b)) :: byte) = b" for b :: byte
  proof -
    have "(of_char (char_of (unat b)) :: byte) = of_nat (of_char (char_of (unat b)))"
      by (simp only: of_nat_of_char)
    also have "\<dots> = of_nat (unat b mod 256)"
      by simp
    also have "\<dots> = b"
      using unsigned_less [of b, where ?'a = nat] by simp
    finally show ?thesis .
  qed
  then show ?thesis
    by (simp add: bytes_of_def chars_of_def map_idI)
qed

lemma chars_of_ascii:
  "list_all (\<lambda>b. b < 128) bs \<Longrightarrow> list_all (\<lambda>c. (of_char c :: nat) < 128) (chars_of bs)"
proof (induction bs)
  case Nil
  show ?case by (simp add: chars_of_def)
next
  case (Cons b bs)
  have "unat b < 128"
    using Cons.prems by (simp add: word_less_nat_alt)
  with Cons show ?case
    by (simp add: chars_of_def)
qed

text \<open>
  The getter on the at-rest form: when the mapping holds the base64 text of \<open>bs\<close>,
  as a server response does, \<open>value\<close> reads \<open>bs\<close>.
\<close>

lemma value_getter_of_encoded:
  "properties v ''value'' = Some (PStr (chars_of (b2a_base64 bs)))
     \<Longrightarrow> value_getter v = Inr (PBytes bs)"
  by (simp add: value_getter_def dict_get_def b64decode_def chars_of_ascii b2a_base64_ascii
      bytes_of_chars_of a2b_b2a_base64)

section \<open>Reading a value after setting it\<close>

text \<open>
  The setter stores the bytes as they are and the getter decodes whatever is stored, so
  reading after setting decodes the raw bytes.
\<close>

lemma value_getter_after_setter:
  "value_getter (snd (value_setter (Variable n cfg) (PBytes bs)))
     = (case a2b_base64 bs of Inl e \<Rightarrow> Inl e | Inr d \<Rightarrow> Inr (PBytes d))"
  by (simp add: value_getter_def value_setter_def Variable_def has_key_def dict_get_def
      b64decode_def)

lemma a2b_base64_hello: "a2b_base64 (bytes_of ''hello'') = Inl (BinasciiInvalidLength 5)"
  by code_simp

lemma a2b_base64_abcd: "a2b_base64 (bytes_of ''abcd'') = Inr [0x69, 0xb7, 0x1d]"
  by code_simp

text \<open>
  Claim C1 says that setting \<open>value\<close> to a byte string and reading \<open>value\<close> gives
  the byte string back. The code does not: after setting \<open>b"hello"\<close> the getter
  raises \<open>binascii.Error\<close> (five data characters), and after setting \<open>b"abcd"\<close> it
  returns the three bytes \<open>69 b7 1d\<close>.
\<close>

theorem value_set_then_get:
  "value_getter (snd (value_setter (Variable (Some ''v1'') (stub_config not_found_stub))
      (PBytes (bytes_of ''hello''))))
     = Inl (BinasciiInvalidLength 5) \<and>
   value_getter (snd (value_setter (Variable (Some ''v1'') (stub_config not_found_stub))
      (PBytes (bytes_of ''abcd''))))
     = Inr (PBytes [0x69, 0xb7, 0x1d]) \<and>
   bytes_of ''abcd'' \<noteq> [0x69, 0xb7, 0x1d]"
proof -
  have "bytes_of ''abcd'' \<noteq> [0x69, 0xb7, 0x1d]"
    by (simp add: bytes_of_def)
  then show ?thesis
    by (simp add: value_getter_after_setter a2b_base64_hello a2b_base64_abcd)
qed

section \<open>Mutual exclusion of \<open>text\<close> and \<open>value\<close>\<close>

text \<open>
  Every step keeps the config, and keeps the mapping exclusive when the responses it
  brings in are exclusive.
\<close>

lemma set_properties_config: "config (snd (set_properties v r)) = config v"
  by (simp add: set_properties_def Let_def split: sum.splits)

lemma set_properties_exclusive:
  "mutually_exclusive r \<Longrightarrow> mutually_exclusive (properties (snd (set_properties v r)))"
  by (auto simp: set_properties_def Let_def mutually_exclusive_def has_key_def split: sum.splits)

lemma step_config: "config (step v op) = config v"
  by (cases op)
    (auto simp: text_setter_def value_setter_def set_properties_config create_def update_def
      exists_var_def reload_def split: sum.splits prod.splits
      dest: arg_cong [where f = "\<lambda>p. config (snd p)"])

lemma well_behavedD:
  "well_behaved c \<Longrightarrow> api_request c m p d q = Inr r \<Longrightarrow> mutually_exclusive r"
  by (auto simp: well_behaved_def api_request_def)

lemma absorb_exclusive:
  assumes "mutually_exclusive r" and "set_properties v r = (res, v')"
  shows "mutually_exclusive (properties v')"
  using set_properties_exclusive [OF assms(1), of v] assms(2) by simp

lemma step_exclusive:
  assumes "mutually_exclusive (properties v)" and "responses_exclusive v op"
  shows "mutually_exclusive (properties (step v op))"
proof (cases op)
  case (SetText x)
  with assms show ?thesis
    by (auto simp: text_setter_def mutually_exclusive_def has_key_def)
next
  case (SetValue x)
  with assms show ?thesis
    by (auto simp: value_setter_def mutually_exclusive_def has_key_def)
next
  case (SetProperties r)
  with assms show ?thesis by (simp add: set_properties_exclusive)
next
  case (Create c)
  with assms show ?thesis
    by (auto simp: create_def split: sum.splits prod.splits
        dest: well_behavedD absorb_exclusive)
next
  case (Update c)
  with assms show ?thesis
    by (auto simp: update_def split: sum.splits prod.splits
        dest: well_behavedD absorb_exclusive)
next
  case (Exists c)
  with assms show ?thesis
    by (auto simp: exists_var_def split: sum.splits)
next
  case (Reload c)
  with assms show ?thesis
    by (auto simp: reload_def set_properties_exclusive split: sum.splits dest: well_behavedD)
qed

lemma responses_exclusive_config:
  "config v = config w \<Longrightarrow> responses_exclusive v op = responses_exclusive w op"
  by (cases op) (simp_all add: require_client_def client_of_def split: option.splits)

lemma run_exclusive:
  "mutually_exclusive (properties v) \<Longrightarrow> \<forall>op \<in> set ops. responses_exclusive v op
     \<Longrightarrow> mutually_exclusive (properties (run v ops))"
proof (induction ops arbitrary: v)
  case Nil
  then show ?case by (simp add: run_def)
next
  case (Cons op ops)
  have inv: "mutually_exclusive (properties (step v op))"
    using Cons.prems by (simp add: step_exclusive)
  have "\<forall>op' \<in> set ops. responses_exclusive (step v op) op'"
    using Cons.prems(2) responses_exclusive_config [OF step_config [of v op]] by simp
  with inv have "mutually_exclusive (properties (run (step v op) ops))"
    by (rule Cons.IH)
  then show ?case by (simp add: run_def)
qed

lemma from_api_repr_exclusive:
  "mutually_exclusive r \<Longrightarrow> from_api_repr r cfg = Inr w \<Longrightarrow> mutually_exclusive (properties w)"
  by (auto simp: from_api_repr_def split: sum.splits prod.splits dest: absorb_exclusive)

text \<open>
  Claim C2, as amended. A freshly constructed variable holds neither key; a variable
  built by \<open>from_api_repr\<close> from a resource with at most one of \<open>text\<close> and
  \<open>value\<close> holds at most one; and from a variable that holds at most one, a sequence
  of operations (the setters, \<open>_set_properties\<close>, \<open>create\<close>, \<open>update\<close>,
  \<open>exists\<close>, \<open>reload\<close>) in which every absorbed resource and every answer of the
  clients carries at most one of the two never reaches a mapping with both.
\<close>

theorem exclusive_invariant:
  "mutually_exclusive (properties (Variable n cfg)) \<and>
   (mutually_exclusive r \<and> from_api_repr r cfg = Inr w \<longrightarrow> mutually_exclusive (properties w)) \<and>
   (mutually_exclusive (properties v) \<and> (\<forall>op \<in> set ops. responses_exclusive v op)
      \<longrightarrow> (\<forall>k. mutually_exclusive (properties (run v (take k ops)))))"
proof (intro conjI impI allI)
  show "mutually_exclusive (properties (Variable n cfg))"
    by (simp add: Variable_def mutually_exclusive_def has_key_def)
next
  assume "mutually_exclusive r \<and> from_api_repr r cfg = Inr w"
  then show "mutually_exclusive (properties w)"
    by (blast intro: from_api_repr_exclusive)
next
  fix k
  assume a: "mutually_exclusive (properties v) \<and> (\<forall>op \<in> set ops. responses_exclusive v op)"
  then have "\<forall>op \<in> set (take k ops). responses_exclusive v op"
    by (blast dest: in_set_takeD)
  with a show "mutually_exclusive (properties (run v (take k ops)))"
    by (blast intro: run_exclusive)
qed

text \<open>
  An instance: a variable from \<open>from_api_repr\<close>, and a session of setters, a
  \<open>create\<close>, an absorbed resource and a \<open>reload\<close> against a server that answers
  with a \<open>text\<close>.
\<close>

theorem exclusive_invariant_witness:
  "mutually_exclusive
     (properties \<lparr>name = Some ''v1'', config = stub_config (answer_stub [''text'' \<mapsto> PStr ''y'']),
                  properties = [''text'' \<mapsto> PStr ''x'']\<rparr>) \<and>
   (\<forall>k. mutually_exclusive
      (properties (run (Variable (Some ''v1'') (stub_config (answer_stub [''text'' \<mapsto> PStr ''y''])))
         (take k [SetValue (PBytes (bytes_of ''hello'')), SetText (PStr ''x''), Create None,
                  SetProperties [''value'' \<mapsto> PStr ''aGVsbG8=''], Reload None]))))"
  using exclusive_invariant
    [where r = "[''name'' \<mapsto> PStr ''projects/p/configs/c/variables/v1'', ''text'' \<mapsto> PStr ''x'']"
      and cfg = "stub_config (answer_stub [''text'' \<mapsto> PStr ''y''])"
      and w = "\<lparr>name = Some ''v1'', config = stub_config (answer_stub [''text'' \<mapsto> PStr ''y'']),
                  properties = [''text'' \<mapsto> PStr ''x'']\<rparr>"
      and v = "Variable (Some ''v1'') (stub_config (answer_stub [''text'' \<mapsto> PStr ''y'']))"
      and n = "Some ''v1''"
      and ops = "[SetValue (PBytes (bytes_of ''hello'')), SetText (PStr ''x''), Create None,
                  SetProperties [''value'' \<mapsto> PStr ''aGVsbG8=''], Reload None]"]
  by (simp add: mutually_exclusive_def has_key_def from_api_repr_def set_properties_def
      dict_get_def variable_name_from_full_name_def eval_nat_numeral Variable_def
      well_behaved_def answer_stub_def require_client_def client_of_def stub_config_def
      fun_upd_twist)

text \<open>
  Claim C2 as stated fails: absorbing a resource that carries both fields leaves a
  mapping with both keys, since \<open>_set_properties\<close> copies the resource unchecked.
\<close>

theorem exclusive_invariant_counterexample:
  "\<not> mutually_exclusive
       (properties (run (Variable (Some ''v1'') (stub_config not_found_stub))
          [SetProperties [''text'' \<mapsto> PStr ''x'', ''value'' \<mapsto> PStr ''eA=='']]))"
  by (simp add: run_def set_properties_def has_key_def mutually_exclusive_def)

section \<open>The setters\<close>

text \<open>
  Claim C3. Setting \<open>text\<close> while the mapping has a \<open>value\<close> key raises the
  \<open>Error\<close> "Value and text are mutually exclusive." (the spec's
  \<open>ConflictingFieldsError\<close>) and leaves the variable, hence the whole mapping, as it
  was; the same holds for setting \<open>value\<close> while the mapping has a \<open>text\<close> key. No
  setter talks to the remote store: its outcome is the same under every config, and
  so under every client.
\<close>

theorem setter_conflict:
  "(has_key (properties v) ''value'' \<longrightarrow>
      text_setter v x = (Inl (Error ''Value and text are mutually exclusive.''), v)) \<and>
   (has_key (properties v) ''text'' \<longrightarrow>
      value_setter v x = (Inl (Error ''Value and text are mutually exclusive.''), v)) \<and>
   text_setter (v\<lparr>config := cfg\<rparr>) x
     = (fst (text_setter v x), (snd (text_setter v x))\<lparr>config := cfg\<rparr>) \<and>
   value_setter (v\<lparr>config := cfg\<rparr>) x
     = (fst (value_setter v x), (snd (value_setter v x))\<lparr>config := cfg\<rparr>)"
  by (simp add: text_setter_def value_setter_def)

theorem setter_conflict_witness:
  "text_setter
     (snd (value_setter (Variable (Some ''v1'') (stub_config not_found_stub))
        (PBytes (bytes_of ''hello''))))
     (PStr ''x'')
   = (Inl (Error ''Value and text are mutually exclusive.''),
      snd (value_setter (Variable (Some ''v1'') (stub_config not_found_stub))
        (PBytes (bytes_of ''hello'')))) \<and>
   value_setter
     (snd (text_setter (Variable (Some ''v1'') (stub_config not_found_stub)) (PStr ''hello'')))
     (PBytes (bytes_of ''x''))
   = (Inl (Error ''Value and text are mutually exclusive.''),
      snd (text_setter (Variable (Some ''v1'') (stub_config not_found_stub)) (PStr ''hello'')))"
  using setter_conflict
      [of "snd (value_setter (Variable (Some ''v1'') (stub_config not_found_stub))
             (PBytes (bytes_of ''hello'')))" "PStr ''x''"]
    setter_conflict
      [of "snd (text_setter (Variable (Some ''v1'') (stub_config not_found_stub))
             (PStr ''hello''))" "PBytes (bytes_of ''x'')"]
  by (simp add: value_setter_def text_setter_def Variable_def has_key_def)

section \<open>The payload\<close>

text \<open>
  Claim C4, as amended. For a variable whose \<open>full_name\<close> is defined, that is with
  a non-empty name: with neither key in the mapping \<open>_get_payload\<close> raises the
  \<open>Error\<close> "No text or value set." (the spec's \<open>MissingPayloadError\<close>); with
  \<open>text\<close> set to \<open>t\<close> it returns exactly the mapping of \<open>name\<close> to the full name
  and \<open>text\<close> to \<open>t\<close>; with no \<open>text\<close> and \<open>value\<close> holding a byte string it
  returns exactly the mapping of \<open>name\<close> to the full name and \<open>value\<close> to the
  base64 text of the bytes.
\<close>

theorem get_payload_cases:
  "full_name v = Inr fn \<longrightarrow>
     (\<not> has_key (properties v) ''text'' \<and> \<not> has_key (properties v) ''value''
        \<longrightarrow> get_payload v = Inl (Error ''No text or value set.'')) \<and>
     (properties v ''text'' = Some t
        \<longrightarrow> get_payload v = Inr [''name'' \<mapsto> PStr fn, ''text'' \<mapsto> t]) \<and>
     (\<not> has_key (properties v) ''text'' \<and> properties v ''value'' = Some (PBytes bs)
        \<longrightarrow> get_payload v
              = Inr [''name'' \<mapsto> PStr fn, ''value'' \<mapsto> PStr (chars_of (b2a_base64 bs))])"
  by (simp add: get_payload_def has_key_def b64encode_def decode_utf8_b2a_base64)

text \<open>
  An instance for each case: no payload, \<open>text = "hello"\<close>, and
  \<open>value = b"hello"\<close>, whose base64 text is \<open>aGVsbG8=\<close>.
\<close>

lemma b2a_base64_hello: "chars_of (b2a_base64 (bytes_of ''hello'')) = ''aGVsbG8=''"
  by code_simp

theorem get_payload_cases_witness:
  "get_payload (Variable (Some ''v1'') (stub_config not_found_stub))
     = Inl (Error ''No text or value set.'') \<and>
   get_payload (snd (text_setter (Variable (Some ''v1'') (stub_config not_found_stub)) (PStr ''hello'')))
     = Inr [''name'' \<mapsto> PStr ''projects/p/configs/c/variables/v1'', ''text'' \<mapsto> PStr ''hello''] \<and>
   get_payload (snd (value_setter (Variable (Some ''v1'') (stub_config not_found_stub))
       (PBytes (bytes_of ''hello''))))
     = Inr [''name'' \<mapsto> PStr ''projects/p/configs/c/variables/v1'',
            ''value'' \<mapsto> PStr ''aGVsbG8='']"
  using get_payload_cases
    [where v = "Variable (Some ''v1'') (stub_config not_found_stub)"
      and fn = "''projects/p/configs/c/variables/v1''"]
    get_payload_cases
    [where v = "snd (text_setter (Variable (Some ''v1'') (stub_config not_found_stub))
                  (PStr ''hello''))"
      and fn = "''projects/p/configs/c/variables/v1''" and t = "PStr ''hello''"]
    get_payload_cases
    [where v = "snd (value_setter (Variable (Some ''v1'') (stub_config not_found_stub))
                  (PBytes (bytes_of ''hello'')))"
      and fn = "''projects/p/configs/c/variables/v1''" and bs = "bytes_of ''hello''"]
    b2a_base64_hello
  by (simp add: full_name_def Variable_def stub_config_def has_key_def text_setter_def
      value_setter_def)

text \<open>
  Claim C4 as stated fails on a variable with an empty name and no payload, where the
  \<open>ValueError\<close> of \<open>full_name\<close> comes first, and on a variable whose \<open>value\<close> is
  the \<open>str\<close> of a server response, which \<open>b64encode\<close> refuses.
\<close>

theorem get_payload_counterexample:
  "\<not> has_key (properties (Variable (Some []) (stub_config not_found_stub))) ''text'' \<and>
   \<not> has_key (properties (Variable (Some []) (stub_config not_found_stub))) ''value'' \<and>
   get_payload (Variable (Some []) (stub_config not_found_stub))
     = Inl (ValueError ''Missing variable name.'') \<and>
   get_payload
     (snd (set_properties (Variable (Some ''v1'') (stub_config not_found_stub))
        [''value'' \<mapsto> PStr ''aGVsbG8='']))
     = Inl (TypeError (''a bytes-like object is required, not '' @ quoted ''str''))"
  by (simp add: get_payload_def full_name_def Variable_def has_key_def set_properties_def
      b64encode_def py_type_name_def stub_config_def)

section \<open>Names and paths\<close>

text \<open>
  Claim C5. For a variable with a non-empty name, \<open>full_name\<close> is the full name of
  the config, then \<open>/variables/\<close>, then the name, and \<open>path\<close> is \<open>/\<close> followed by
  that. With a name that is empty or \<open>None\<close>, \<open>full_name\<close> raises the
  \<open>ValueError\<close> "Missing variable name." (the spec's \<open>InvalidStateError\<close>).
\<close>

theorem full_name_and_path:
  "(name v = Some n \<and> n \<noteq> [] \<longrightarrow>
      full_name v = Inr (config_full_name (config v) @ ''/variables/'' @ n) \<and>
      path v = Inr (''/'' @ config_full_name (config v) @ ''/variables/'' @ n)) \<and>
   (name v = None \<or> name v = Some [] \<longrightarrow>
      full_name v = Inl (ValueError ''Missing variable name.''))"
  by (auto simp: full_name_def path_def)

theorem full_name_and_path_witness:
  "full_name (Variable (Some ''v1'') (stub_config not_found_stub))
     = Inr ''projects/p/configs/c/variables/v1'' \<and>
   path (Variable (Some ''v1'') (stub_config not_found_stub))
     = Inr ''/projects/p/configs/c/variables/v1'' \<and>
   full_name (Variable (Some []) (stub_config not_found_stub))
     = Inl (ValueError ''Missing variable name.'') \<and>
   full_name (Variable None (stub_config not_found_stub))
     = Inl (ValueError ''Missing variable name.'')"
  using full_name_and_path [of "Variable (Some ''v1'') (stub_config not_found_stub)" "''v1''"]
    full_name_and_path [of "Variable (Some []) (stub_config not_found_stub)"]
    full_name_and_path [of "Variable None (stub_config not_found_stub)"]
  by (simp add: Variable_def stub_config_def)

section \<open>The remote operations\<close>

text \<open>
  Claim C6. When the client raises \<open>Conflict\<close>, \<open>create\<close> returns \<open>False\<close>, raises
  nothing and leaves the variable, hence its mapping, as it was. When the client
  answers with a resource, \<open>create\<close> returns \<open>True\<close> and the variable has absorbed
  the answer: its mapping is the answer without the \<open>name\<close> entry, and its name is
  the variable name parsed from that entry (the name it had, when the answer has no
  \<open>name\<close> entry).
\<close>

theorem create_conflict_and_success:
  "(get_payload v = Inr data \<and>
      api_request (require_client v client) POST (config_path (config v) @ ''/variables'')
        (Some data) None = Inl Conflict
      \<longrightarrow> create v client = (Inr False, v)) \<and>
   (get_payload v = Inr data \<and>
      api_request (require_client v client) POST (config_path (config v) @ ''/variables'')
        (Some data) None = Inr resp \<and>
      has_key resp ''name'' \<and>
      variable_name_from_full_name (dict_get resp ''name'') = Inr n
      \<longrightarrow> create v client
            = (Inr True, \<lparr>name = Some n, config = config v,
                           properties = resp(''name'' := None)\<rparr>)) \<and>
   (get_payload v = Inr data \<and>
      api_request (require_client v client) POST (config_path (config v) @ ''/variables'')
        (Some data) None = Inr resp \<and>
      \<not> has_key resp ''name''
      \<longrightarrow> create v client
            = (Inr True, \<lparr>name = name v, config = config v, properties = resp\<rparr>))"
  by (simp add: create_def set_properties_def has_key_def)

theorem create_conflict_and_success_witness:
  "create (snd (text_setter (Variable (Some ''v1'') (stub_config conflict_stub)) (PStr ''hello'')))
      None
     = (Inr False,
        \<lparr>name = Some ''v1'', config = stub_config conflict_stub,
         properties = [''text'' \<mapsto> PStr ''hello'']\<rparr>) \<and>
   create (snd (text_setter (Variable (Some ''v1'') (stub_config conflict_stub)) (PStr ''hello'')))
      (Some (answer_stub [''name'' \<mapsto> PStr ''projects/p/configs/c/variables/v1'',
                          ''text'' \<mapsto> PStr ''hello'', ''state'' \<mapsto> PStr ''UPDATED'']))
     = (Inr True,
        \<lparr>name = Some ''v1'', config = stub_config conflict_stub,
         properties = [''text'' \<mapsto> PStr ''hello'', ''state'' \<mapsto> PStr ''UPDATED'']\<rparr>) \<and>
   create (snd (text_setter (Variable (Some ''v1'') (stub_config conflict_stub)) (PStr ''hello'')))
      (Some (answer_stub [''state'' \<mapsto> PStr ''UPDATED'']))
     = (Inr True,
        \<lparr>name = Some ''v1'', config = stub_config conflict_stub,
         properties = [''state'' \<mapsto> PStr ''UPDATED'']\<rparr>)"
  using create_conflict_and_success
    [where v = "snd (text_setter (Variable (Some ''v1'') (stub_config conflict_stub))
                  (PStr ''hello''))"
      and data = "[''name'' \<mapsto> PStr ''projects/p/configs/c/variables/v1'',
                   ''text'' \<mapsto> PStr ''hello'']"
      and client = None]
    create_conflict_and_success
    [where v = "snd (text_setter (Variable (Some ''v1'') (stub_config conflict_stub))
                  (PStr ''hello''))"
      and data = "[''name'' \<mapsto> PStr ''projects/p/configs/c/variables/v1'',
                   ''text'' \<mapsto> PStr ''hello'']"
      and client = "Some (answer_stub [''name'' \<mapsto> PStr ''projects/p/configs/c/variables/v1'',
                          ''text'' \<mapsto> PStr ''hello'', ''state'' \<mapsto> PStr ''UPDATED''])"
      and resp = "[''name'' \<mapsto> PStr ''projects/p/configs/c/variables/v1'',
                   ''text'' \<mapsto> PStr ''hello'', ''state'' \<mapsto> PStr ''UPDATED'']"
      and n = "''v1''"]
    create_conflict_and_success
    [where v = "snd (text_setter (Variable (Some ''v1'') (stub_config conflict_stub))
                  (PStr ''hello''))"
      and data = "[''name'' \<mapsto> PStr ''projects/p/configs/c/variables/v1'',
                   ''text'' \<mapsto> PStr ''hello'']"
      and client = "Some (answer_stub [''state'' \<mapsto> PStr ''UPDATED''])"
      and resp = "[''state'' \<mapsto> PStr ''UPDATED'']"]
  by (simp add: get_payload_def full_name_def Variable_def stub_config_def
      api_request_def require_client_def client_of_def conflict_stub_def answer_stub_def
      text_setter_def has_key_def dict_get_def variable_name_from_full_name_def
      eval_nat_numeral fun_upd_twist)

text \<open>
  Claim C7. When the client raises \<open>NotFound\<close>, \<open>update\<close> returns \<open>False\<close> and
  raises nothing, while \<open>reload\<close> raises that \<open>NotFound\<close> to its caller. Both leave
  the variable as it was.
\<close>

theorem update_and_reload_not_found:
  "(get_payload v = Inr data \<and> path v = Inr p \<and>
      api_request (require_client v client) PUT p (Some data) None = Inl NotFound
      \<longrightarrow> update v client = (Inr False, v)) \<and>
   (path v = Inr p \<and>
      api_request (require_client v client) GET p None None = Inl NotFound
      \<longrightarrow> reload v client = (Inl NotFound, v))"
  by (simp add: update_def reload_def)

theorem update_and_reload_not_found_witness:
  "update (snd (text_setter (Variable (Some ''v1'') (stub_config not_found_stub)) (PStr ''hello'')))
      None
     = (Inr False,
        snd (text_setter (Variable (Some ''v1'') (stub_config not_found_stub)) (PStr ''hello''))) \<and>
   reload (snd (text_setter (Variable (Some ''v1'') (stub_config not_found_stub)) (PStr ''hello'')))
      None
     = (Inl NotFound,
        snd (text_setter (Variable (Some ''v1'') (stub_config not_found_stub)) (PStr ''hello'')))"
  using update_and_reload_not_found
    [where v = "snd (text_setter (Variable (Some ''v1'') (stub_config not_found_stub))
                  (PStr ''hello''))"
      and data = "[''name'' \<mapsto> PStr ''projects/p/configs/c/variables/v1'',
                   ''text'' \<mapsto> PStr ''hello'']"
      and p = "''/projects/p/configs/c/variables/v1''" and client = None]
  by (simp add: get_payload_def path_def full_name_def Variable_def stub_config_def
      api_request_def require_client_def client_of_def not_found_stub_def text_setter_def
      has_key_def)

text \<open>
  Claim C8. When the \<open>GET\<close> of \<open>exists\<close> succeeds the result is \<open>True\<close>, when the
  client raises \<open>NotFound\<close> the result is \<open>False\<close>, and whatever happens the
  variable (its name, its config and its mapping) is the same after the call.
\<close>

theorem exists_frame:
  "(path v = Inr p \<and>
      api_request (require_client v client) GET p None (Some [''fields'' \<mapsto> ''name'']) = Inr r
      \<longrightarrow> exists_var v client = (Inr True, v)) \<and>
   (path v = Inr p \<and>
      api_request (require_client v client) GET p None (Some [''fields'' \<mapsto> ''name''])
        = Inl NotFound
      \<longrightarrow> exists_var v client = (Inr False, v)) \<and>
   snd (exists_var v client) = v"
  by (auto simp: exists_var_def Let_def split: sum.splits)

theorem exists_frame_witness:
  "exists_var (Variable (Some ''v1'') (stub_config (answer_stub Map.empty))) None
     = (Inr True, Variable (Some ''v1'') (stub_config (answer_stub Map.empty))) \<and>
   exists_var (Variable (Some ''v1'') (stub_config (answer_stub Map.empty))) (Some not_found_stub)
     = (Inr False, Variable (Some ''v1'') (stub_config (answer_stub Map.empty)))"
  using exists_frame [where v = "Variable (Some ''v1'') (stub_config (answer_stub Map.empty))"
      and p = "''/projects/p/configs/c/variables/v1''" and client = None and r = Map.empty]
    exists_frame [where v = "Variable (Some ''v1'') (stub_config (answer_stub Map.empty))"
      and p = "''/projects/p/configs/c/variables/v1''" and client = "Some not_found_stub"]
  by (simp add: path_def full_name_def Variable_def stub_config_def api_request_def
      require_client_def client_of_def answer_stub_def not_found_stub_def)

section \<open>Absorbing a server response\<close>

text \<open>
  Claim C9. \<open>_set_properties\<close> replaces the mapping by the resource without its
  \<open>name\<close> entry and sets the local name to the variable name parsed from that entry;
  a resource without a \<open>name\<close> entry replaces the mapping and keeps the name. The
  outcome never depends on the prior mapping, so nothing is merged. Absorbing
  \<open>{"name": "projects/p/configs/c/variables/v2", "text": "x"}\<close> sets the name to
  \<open>v2\<close> and leaves a mapping with the one key \<open>text\<close>, so without \<open>value\<close>.
\<close>

theorem set_properties_replaces:
  "(has_key resource ''name'' \<and>
      variable_name_from_full_name (dict_get resource ''name'') = Inr n
      \<longrightarrow> set_properties v resource
            = (Inr (), \<lparr>name = Some n, config = config v,
                         properties = resource(''name'' := None)\<rparr>)) \<and>
   (\<not> has_key resource ''name''
      \<longrightarrow> set_properties v resource
            = (Inr (), \<lparr>name = name v, config = config v, properties = resource\<rparr>)) \<and>
   set_properties (v\<lparr>properties := prior\<rparr>) resource = set_properties v resource \<and>
   set_properties v [''name'' \<mapsto> PStr ''projects/p/configs/c/variables/v2'',
                     ''text'' \<mapsto> PStr ''x'']
     = (Inr (), \<lparr>name = Some ''v2'', config = config v,
                  properties = [''text'' \<mapsto> PStr ''x'']\<rparr>) \<and>
   \<not> has_key
       (properties (snd (set_properties v [''name'' \<mapsto> PStr ''projects/p/configs/c/variables/v2'',
                                            ''text'' \<mapsto> PStr ''x''])))
       ''value''"
  by (auto simp: set_properties_def has_key_def dict_get_def
      variable_name_from_full_name_def eval_nat_numeral fun_eq_iff)


theorem set_properties_replaces_witness:
  "set_properties
     (snd (value_setter (Variable (Some ''v1'') (stub_config not_found_stub))
        (PBytes (bytes_of ''hello''))))
     [''name'' \<mapsto> PStr ''projects/p/configs/c/variables/v2'', ''state'' \<mapsto> PStr ''UPDATED'']
   = (Inr (), \<lparr>name = Some ''v2'', config = stub_config not_found_stub,
                properties = [''state'' \<mapsto> PStr ''UPDATED'']\<rparr>) \<and>
   set_properties
     (snd (value_setter (Variable (Some ''v1'') (stub_config not_found_stub))
        (PBytes (bytes_of ''hello''))))
     [''state'' \<mapsto> PStr ''DELETED'']
   = (Inr (), \<lparr>name = Some ''v1'', config = stub_config not_found_stub,
                properties = [''state'' \<mapsto> PStr ''DELETED'']\<rparr>)"
  using set_properties_replaces
    [where v = "snd (value_setter (Variable (Some ''v1'') (stub_config not_found_stub))
                  (PBytes (bytes_of ''hello'')))"
      and resource = "[''name'' \<mapsto> PStr ''projects/p/configs/c/variables/v2'',
                       ''state'' \<mapsto> PStr ''UPDATED'']"
      and n = "''v2''"]
    set_properties_replaces
    [where v = "snd (value_setter (Variable (Some ''v1'') (stub_config not_found_stub))
                  (PBytes (bytes_of ''hello'')))"
      and resource = "[''state'' \<mapsto> PStr ''DELETED'']"]
  by (simp add: has_key_def dict_get_def variable_name_from_full_name_def eval_nat_numeral
      value_setter_def Variable_def fun_upd_twist)

section \<open>Precedence of \<open>text\<close>\<close>

text \<open>
  Claim C10. When the mapping holds both keys, \<open>_get_payload\<close> takes the first
  branch: the payload it builds holds \<open>name\<close> and \<open>text\<close> and no \<open>value\<close> (and
  with an empty name it raises the \<open>ValueError\<close> of \<open>full_name\<close>, building
  nothing). Such a mapping is reached only through a response with both fields: a
  session that starts with at most one key and ends with both contains a step whose
  absorbed resource, or whose client, brings in both.
\<close>

theorem text_precedence:
  "(has_key (properties v) ''text'' \<and> has_key (properties v) ''value''
      \<longrightarrow> get_payload v =
            (case full_name v of
               Inl e \<Rightarrow> Inl e
             | Inr fn \<Rightarrow> Inr [''name'' \<mapsto> PStr fn, ''text'' \<mapsto> the (properties v ''text'')])) \<and>
   (mutually_exclusive (properties v) \<and> \<not> mutually_exclusive (properties (run v ops))
      \<longrightarrow> (\<exists>op \<in> set ops. \<not> responses_exclusive v op))"
  using run_exclusive [of v ops] by (auto simp: get_payload_def split: sum.splits)

theorem text_precedence_witness:
  "get_payload
     (snd (set_properties (Variable (Some ''v1'') (stub_config not_found_stub))
        [''text'' \<mapsto> PStr ''x'', ''value'' \<mapsto> PStr ''eA=='']))
   = Inr [''name'' \<mapsto> PStr ''projects/p/configs/c/variables/v1'', ''text'' \<mapsto> PStr ''x''] \<and>
   (\<exists>op \<in> set [SetProperties [''text'' \<mapsto> PStr ''x'', ''value'' \<mapsto> PStr ''eA=='']].
      \<not> responses_exclusive (Variable (Some ''v1'') (stub_config not_found_stub)) op)"
  using text_precedence
    [where v = "snd (set_properties (Variable (Some ''v1'') (stub_config not_found_stub))
        [''text'' \<mapsto> PStr ''x'', ''value'' \<mapsto> PStr ''eA==''])"]
    text_precedence
    [where v = "Variable (Some ''v1'') (stub_config not_found_stub)"
      and ops = "[SetProperties [''text'' \<mapsto> PStr ''x'', ''value'' \<mapsto> PStr ''eA=='']]"]
  by (simp add: set_properties_def has_key_def Variable_def full_name_def stub_config_def
      mutually_exclusive_def run_def)

end
